theory Spec2Isabelle
  imports Complex_Main "HOL-Library.Multiset"
begin

section \<open>JavaScript values used by the order and reporting code\<close>

text \<open>
  The code under verification is \<^verbatim>\<open>src/App.tsx\<close>: the client-side dashboard
  (\<^verbatim>\<open>filteredOrders\<close>, \<^verbatim>\<open>dashboardStats\<close>) and the server routes
  (\<^verbatim>\<open>authenticateToken\<close>, \<^verbatim>\<open>isAdmin\<close>, \<^verbatim>\<open>POST /api/orders\<close>,
  \<^verbatim>\<open>GET /api/admin/stats\<close>).

  JavaScript numbers are modelled as exact rationals: rounding to IEEE doubles and the
  exponent notation of very large or very small numbers are not modelled.  Strings are
  byte strings (text in UTF-8).  An exception is a value of type \<open>exn\<close>.
\<close>

datatype exn = SyntaxError | TypeError

datatype json =
    JNull
  | JBool bool
  | JNum rat
  | JStr string
  | JArr "json list"
  | JObj "(string \<times> json) list"

subsection \<open>\<^verbatim>\<open>String.prototype.toLowerCase\<close> and \<^verbatim>\<open>split(' ')\<close>\<close>

definition lower_char :: "char \<Rightarrow> char" where
  "lower_char c =
     (if 65 \<le> (of_char c :: nat) \<and> (of_char c :: nat) \<le> 90
      then char_of ((of_char c :: nat) + 32) else c)"

text \<open>
  Only the letters A to Z are mapped.  JavaScript also lower-cases letters outside ASCII,
  but none of them becomes one of the letters of \<^verbatim>\<open>delivered\<close>, so the comparison
  made by the dashboard is not affected.
\<close>

definition toLowerCase :: "string \<Rightarrow> string" where
  "toLowerCase s = map lower_char s"

fun split_on :: "char \<Rightarrow> string \<Rightarrow> string list" where
  "split_on d [] = [[]]"
| "split_on d (c # cs) =
     (if c = d then [] # split_on d cs
      else (case split_on d cs of
              [] \<Rightarrow> [[c]]
            | w # ws \<Rightarrow> (c # w) # ws))"

subsection \<open>\<^verbatim>\<open>JSON.stringify\<close>\<close>










subsection \<open>\<^verbatim>\<open>JSON.parse\<close>\<close>

definition is_ws :: "char \<Rightarrow> bool" where
  "is_ws c = ((of_char c :: nat) \<in> {32, 9, 10, 13})"

definition skip_ws :: "string \<Rightarrow> string" where
  "skip_ws s = dropWhile is_ws s"

definition is_digit :: "char \<Rightarrow> bool" where
  "is_digit c = (48 \<le> (of_char c :: nat) \<and> (of_char c :: nat) \<le> 57)"

definition digit_val :: "char \<Rightarrow> nat" where
  "digit_val c = (of_char c :: nat) - 48"

definition int_of_digits :: "string \<Rightarrow> int" where
  "int_of_digits ds = foldl (\<lambda>n c. 10 * n + int (digit_val c)) 0 ds"

text \<open>The integer part of a number: a single \<^verbatim>\<open>0\<close>, or digits not starting with 0.\<close>

definition int_part :: "string \<Rightarrow> (string \<times> string) option" where
  "int_part s =
     (case s of
        [] \<Rightarrow> None
      | c # cs \<Rightarrow>
          if c = CHR ''0'' then Some ([c], cs)
          else if is_digit c then Some (takeWhile is_digit s, dropWhile is_digit s)
          else None)"

definition frac_part :: "string \<Rightarrow> (string \<times> string) option" where
  "frac_part s =
     (case s of
        [] \<Rightarrow> Some ([], s)
      | c # cs \<Rightarrow>
          if c = CHR ''.''
          then (if takeWhile is_digit cs = [] then None
                else Some (takeWhile is_digit cs, dropWhile is_digit cs))
          else Some ([], s))"

definition exp_sign :: "string \<Rightarrow> bool \<times> string" where
  "exp_sign s =
     (case s of
        [] \<Rightarrow> (False, s)
      | c # cs \<Rightarrow>
          if c = CHR ''-'' then (True, cs)
          else if c = CHR ''+'' then (False, cs)
          else (False, s))"

definition exp_part :: "string \<Rightarrow> (int \<times> string) option" where
  "exp_part s =
     (case s of
        [] \<Rightarrow> Some (0, s)
      | c # cs \<Rightarrow>
          if c = CHR ''e'' \<or> c = CHR ''E''
          then (case exp_sign cs of (neg, ds) \<Rightarrow>
                  if takeWhile is_digit ds = [] then None
                  else Some ((if neg then - int_of_digits (takeWhile is_digit ds)
                              else int_of_digits (takeWhile is_digit ds)),
                             dropWhile is_digit ds))
          else Some (0, s))"

definition scale10 :: "rat \<Rightarrow> int \<Rightarrow> rat" where
  "scale10 v k = (if 0 \<le> k then v * 10 ^ nat k else v / 10 ^ nat (- k))"

definition parse_unsigned :: "string \<Rightarrow> (rat \<times> string) option" where
  "parse_unsigned s =
     (case int_part s of
        None \<Rightarrow> None
      | Some (ds, s2) \<Rightarrow>
          (case frac_part s2 of
             None \<Rightarrow> None
           | Some (fs, s3) \<Rightarrow>
               (case exp_part s3 of
                  None \<Rightarrow> None
                | Some (e, s4) \<Rightarrow>
                    Some (scale10 (of_int (int_of_digits (ds @ fs))) (e - int (length fs)), s4))))"

definition parse_number :: "string \<Rightarrow> (rat \<times> string) option" where
  "parse_number s =
     (case s of
        [] \<Rightarrow> None
      | c # cs \<Rightarrow>
          if c = CHR ''-''
          then map_option (\<lambda>(v, r). (- v, r)) (parse_unsigned cs)
          else parse_unsigned s)"

definition hex_val :: "char \<Rightarrow> nat option" where
  "hex_val c =
     (let n = (of_char c :: nat) in
      if 48 \<le> n \<and> n \<le> 57 then Some (n - 48)
      else if 97 \<le> n \<and> n \<le> 102 then Some (n - 87)
      else if 65 \<le> n \<and> n \<le> 70 then Some (n - 55)
      else None)"

definition hex4 :: "string \<Rightarrow> nat option" where
  "hex4 s =
     (case map hex_val (take 4 s) of
        [Some a, Some b, Some c, Some d] \<Rightarrow> Some (((a * 16 + b) * 16 + c) * 16 + d)
      | _ \<Rightarrow> None)"

text \<open>
  A \<^verbatim>\<open>\uXXXX\<close> escape denotes one UTF-16 code unit; the byte string holds its UTF-8
  encoding (a surrogate is encoded on its own, as three bytes).
\<close>

definition utf8 :: "nat \<Rightarrow> string" where
  "utf8 cp =
     (if cp < 128 then [char_of cp]
      else if cp < 2048 then [char_of (192 + cp div 64), char_of (128 + cp mod 64)]
      else [char_of (224 + cp div 4096), char_of (128 + (cp div 64) mod 64),
            char_of (128 + cp mod 64)])"

definition unescape :: "char \<Rightarrow> char option" where
  "unescape e =
     (if e = CHR 0x22 then Some (CHR 0x22)
      else if e = CHR 0x5C then Some (CHR 0x5C)
      else if e = CHR ''/'' then Some (CHR ''/'')
      else if e = CHR ''b'' then Some (CHR 0x08)
      else if e = CHR ''f'' then Some (CHR 0x0C)
      else if e = CHR ''n'' then Some (CHR 0x0A)
      else if e = CHR ''r'' then Some (CHR 0x0D)
      else if e = CHR ''t'' then Some (CHR 0x09)
      else None)"

text \<open>The characters of a string literal, after its opening quote.\<close>

fun parse_chars :: "string \<Rightarrow> (string \<times> string) option" where
  "parse_chars [] = None"
| "parse_chars (c # cs) =
     (if c = CHR 0x22 then Some ([], cs)
      else if c = CHR 0x5C then
        (case cs of
           [] \<Rightarrow> None
         | e # es \<Rightarrow>
             if e = CHR ''u'' then
               (case hex4 es of
                  None \<Rightarrow> None
                | Some cp \<Rightarrow> map_option (\<lambda>(t, r). (utf8 cp @ t, r)) (parse_chars (drop 4 es)))
             else
               (case unescape e of
                  None \<Rightarrow> None
                | Some ch \<Rightarrow> map_option (\<lambda>(t, r). (ch # t, r)) (parse_chars es)))
      else if (of_char c :: nat) < 32 then None
      else map_option (\<lambda>(t, r). (c # t, r)) (parse_chars cs))"

definition literal :: "string \<Rightarrow> json \<Rightarrow> string \<Rightarrow> (json \<times> string) option" where
  "literal w v s = (if take (length w) s = w then Some (v, drop (length w) s) else None)"

text \<open>
  Recursive descent, with the nesting bounded by a fuel argument.  Two units of fuel are
  used for each level of nesting, and every level consumes at least one character, so
  \<open>2 * length s + 2\<close> units are never exhausted on the text \<open>s\<close>.
\<close>

fun parse_value :: "nat \<Rightarrow> string \<Rightarrow> (json \<times> string) option"
  and parse_elements :: "nat \<Rightarrow> string \<Rightarrow> (json list \<times> string) option"
  and parse_members :: "nat \<Rightarrow> string \<Rightarrow> ((string \<times> json) list \<times> string) option"
where
  "parse_value 0 s = None"
| "parse_value (Suc n) s =
     (case skip_ws s of
        [] \<Rightarrow> None
      | c # cs \<Rightarrow>
          if c = CHR ''['' then
            (case skip_ws cs of
               [] \<Rightarrow> None
             | d # ds \<Rightarrow>
                 if d = CHR '']'' then Some (JArr [], ds)
                 else map_option (\<lambda>(vs, r). (JArr vs, r)) (parse_elements n cs))
          else if c = CHR ''{'' then
            (case skip_ws cs of
               [] \<Rightarrow> None
             | d # ds \<Rightarrow>
                 if d = CHR ''}'' then Some (JObj [], ds)
                 else map_option (\<lambda>(fs, r). (JObj fs, r)) (parse_members n cs))
          else if c = CHR 0x22 then map_option (\<lambda>(t, r). (JStr t, r)) (parse_chars cs)
          else if c = CHR ''t'' then literal ''true'' (JBool True) (c # cs)
          else if c = CHR ''f'' then literal ''false'' (JBool False) (c # cs)
          else if c = CHR ''n'' then literal ''null'' JNull (c # cs)
          else map_option (\<lambda>(v, r). (JNum v, r)) (parse_number (c # cs)))"
| "parse_elements 0 s = None"
| "parse_elements (Suc n) s =
     (case parse_value n s of
        None \<Rightarrow> None
      | Some (v, r) \<Rightarrow>
          (case skip_ws r of
             [] \<Rightarrow> None
           | d # ds \<Rightarrow>
               if d = CHR '','' then map_option (\<lambda>(vs, r'). (v # vs, r')) (parse_elements n ds)
               else if d = CHR '']'' then Some ([v], ds)
               else None))"
| "parse_members 0 s = None"
| "parse_members (Suc n) s =
     (case skip_ws s of
        [] \<Rightarrow> None
      | q # qs \<Rightarrow>
          if q \<noteq> CHR 0x22 then None
          else
            (case parse_chars qs of
               None \<Rightarrow> None
             | Some (k, r) \<Rightarrow>
                 (case skip_ws r of
                    [] \<Rightarrow> None
                  | col # r1 \<Rightarrow>
                      if col \<noteq> CHR '':'' then None
                      else
                        (case parse_value n r1 of
                           None \<Rightarrow> None
                         | Some (v, r2) \<Rightarrow>
                             (case skip_ws r2 of
                                [] \<Rightarrow> None
                              | d # ds \<Rightarrow>
                                  if d = CHR '','' then
                                    map_option (\<lambda>(fs, r'). ((k, v) # fs, r')) (parse_members n ds)
                                  else if d = CHR ''}'' then Some ([(k, v)], ds)
                                  else None)))))"

text \<open>\<^verbatim>\<open>JSON.parse(s)\<close>: the value, or the \<^verbatim>\<open>SyntaxError\<close> it throws.\<close>

definition JSON_parse :: "string \<Rightarrow> exn + json" where
  "JSON_parse s =
     (case parse_value (2 * length s + 2) s of
        None \<Rightarrow> Inl SyntaxError
      | Some (v, r) \<Rightarrow> if skip_ws r = [] then Inr v else Inl SyntaxError)"

section \<open>Plain objects used as dictionaries\<close>

text \<open>
  \<^verbatim>\<open>Record<string, number>\<close>: an object keeps its own keys in insertion order, so it is
  an association list with distinct keys.  Assigning to an existing key keeps its place.
  Keys are assumed not to shadow a property inherited from \<^verbatim>\<open>Object.prototype\<close>.
\<close>

type_synonym 'v jsobj = "(string \<times> 'v) list"

definition js_get :: "'v jsobj \<Rightarrow> string \<Rightarrow> 'v option" where
  "js_get obj k = map_of obj k"

fun js_set :: "'v jsobj \<Rightarrow> string \<Rightarrow> 'v \<Rightarrow> 'v jsobj" where
  "js_set [] k v = [(k, v)]"
| "js_set ((k', v') # obj) k v =
     (if k' = k then (k, v) # obj else (k', v') # js_set obj k v)"

text \<open>\<^verbatim>\<open>x || 0\<close> on a number or \<^verbatim>\<open>undefined\<close>.\<close>

definition or0 :: "rat option \<Rightarrow> rat" where
  "or0 x = (case x of None \<Rightarrow> 0 | Some v \<Rightarrow> v)"

text \<open>
  \<^verbatim>\<open>Object.keys\<close>: the keys that are array indices (canonical decimal numerals below
  \<open>2^32 - 1\<close>) come first, in ascending numeric order; the other keys follow in
  insertion order.
\<close>

definition is_array_index :: "string \<Rightarrow> bool" where
  "is_array_index k =
     (k \<noteq> [] \<and> list_all is_digit k \<and> (k = ''0'' \<or> hd k \<noteq> CHR ''0'')
      \<and> length k \<le> 10 \<and> int_of_digits k < 4294967295)"

definition Object_keys :: "'v jsobj \<Rightarrow> string list" where
  "Object_keys obj =
     sort_key int_of_digits (filter is_array_index (map fst obj))
     @ filter (\<lambda>k. \<not> is_array_index k) (map fst obj)"

text \<open>The value of a property of a parsed object: the last occurrence of the key wins.\<close>

definition property :: "(string \<times> json) list \<Rightarrow> string \<Rightarrow> json option" where
  "property fs k = map_of (rev fs) k"

text \<open>
  \<^verbatim>\<open>items.forEach(callback)\<close> with a callback that updates a dictionary and may throw:
  the updates made before the exception stay.
\<close>

fun forEach :: "('s \<Rightarrow> json \<Rightarrow> exn + 's) \<Rightarrow> json list \<Rightarrow> 's \<Rightarrow> 's \<times> exn option" where
  "forEach cb [] s = (s, None)"
| "forEach cb (item # rest) s =
     (case cb s item of
        Inl e \<Rightarrow> (s, Some e)
      | Inr s' \<Rightarrow> forEach cb rest s')"

text \<open>
  \<^verbatim>\<open>const items = JSON.parse(text); items.forEach(callback)\<close>.  A parsed value that is
  not an array has no \<^verbatim>\<open>forEach\<close> method, which is a \<^verbatim>\<open>TypeError\<close>.
\<close>

definition parse_forEach ::
  "('s \<Rightarrow> json \<Rightarrow> exn + 's) \<Rightarrow> string \<Rightarrow> 's \<Rightarrow> 's \<times> exn option" where
  "parse_forEach cb text s =
     (case JSON_parse text of
        Inl e \<Rightarrow> (s, Some e)
      | Inr (JArr its) \<Rightarrow> forEach cb its s
      | Inr _ \<Rightarrow> (s, Some TypeError))"

section \<open>The client: dashboard analytics\<close>

record order =
  order_id :: nat
  user_id :: "nat option"
  items :: string
  order_total :: rat
  status :: string
  address :: string
  contact :: string
  created_at :: string

text \<open>
  \<open>monthStr\<close> stands for
  \<^verbatim>\<open>new Date(order.created_at).toLocaleString('default', { month: 'short' })\<close>.
  It depends on the locale and time zone of the browser, so it is a parameter of the
  model; \<open>month_short_en\<close> below is its value for an English locale on the timestamps
  that SQLite writes (\<^verbatim>\<open>YYYY-MM-DD HH:MM:SS\<close>).
\<close>

type_synonym month_fn = "string \<Rightarrow> string"

definition month_names :: "string list" where
  "month_names = [''Jan'', ''Feb'', ''Mar'', ''Apr'', ''May'', ''Jun'',
                  ''Jul'', ''Aug'', ''Sep'', ''Oct'', ''Nov'', ''Dec'']"

definition month_short_en :: month_fn where
  "month_short_en s =
     (let m = nat (int_of_digits (take 2 (drop 5 s))) in
      if length s \<ge> 10 \<and> list_all is_digit (take 4 s) \<and> take 1 (drop 4 s) = ''-''
         \<and> list_all is_digit (take 2 (drop 5 s)) \<and> 1 \<le> m \<and> m \<le> 12
      then month_names ! (m - 1)
      else ''Invalid Date'')"

definition filteredOrders :: "month_fn \<Rightarrow> string \<Rightarrow> order list \<Rightarrow> order list" where
  "filteredOrders monthStr selectedMonth adminOrders =
     (if selectedMonth = ''All'' then adminOrders
      else filter (\<lambda>order. monthStr (created_at order) = selectedMonth) adminOrders)"

text \<open>
  The callback of line 158:
  \<^verbatim>\<open>productCount[item.name] = (productCount[item.name] || 0) + item.quantity\<close>.
  The snapshot is read through the type \<^verbatim>\<open>CartItem\<close>: an item is an object with a string
  \<^verbatim>\<open>name\<close> and a numeric \<^verbatim>\<open>quantity\<close>.  JavaScript throws a \<^verbatim>\<open>TypeError\<close> on a
  \<^verbatim>\<open>null\<close> item and coerces the other shapes; the model stops the loop with
  \<^verbatim>\<open>TypeError\<close> on every item outside the typed view.
\<close>

definition count_quantity :: "rat jsobj \<Rightarrow> json \<Rightarrow> exn + rat jsobj" where
  "count_quantity productCount item =
     (case item of
        JObj fs \<Rightarrow>
          (case (property fs ''name'', property fs ''quantity'') of
             (Some (JStr name), Some (JNum quantity)) \<Rightarrow>
               Inr (js_set productCount name (or0 (js_get productCount name) + quantity))
           | _ \<Rightarrow> Inl TypeError)
      | _ \<Rightarrow> Inl TypeError)"

text \<open>
  The local variables of \<^verbatim>\<open>dashboardStats\<close>, in the order
  \<open>(totalRevenue, delivered, pending, monthlySales, productCount)\<close>.
\<close>

type_synonym locals = "rat \<times> nat \<times> nat \<times> rat jsobj \<times> rat jsobj"

definition locals0 :: locals where
  "locals0 = (0, 0, 0, [(''Jan'', 0), (''Feb'', 0), (''Mar'', 0)], [])"

text \<open>The body of \<^verbatim>\<open>filteredOrders.forEach(order => ...)\<close>, lines 139 to 162.\<close>

definition order_step :: "month_fn \<Rightarrow> order \<Rightarrow> locals \<Rightarrow> locals" where
  "order_step monthStr order =
     (\<lambda>(totalRevenue, delivered, pending, monthlySales, productCount).
        (totalRevenue + order_total order,
         (if toLowerCase (status order) = ''delivered'' then delivered + 1 else delivered),
         (if toLowerCase (status order) = ''delivered'' then pending else pending + 1),
         (case js_get monthlySales (monthStr (created_at order)) of
            Some v \<Rightarrow> js_set monthlySales (monthStr (created_at order)) (v + order_total order)
          | None \<Rightarrow> js_set monthlySales (monthStr (created_at order)) (order_total order)),
         \<comment> \<open>\<^verbatim>\<open>try { ... } catch (e) {}\<close>: the exception is dropped\<close>
         fst (parse_forEach count_quantity (items order) productCount)))"

definition run_orders :: "month_fn \<Rightarrow> order list \<Rightarrow> locals" where
  "run_orders monthStr filtered = fold (order_step monthStr) filtered locals0"

text \<open>
  \<^verbatim>\<open>productCount[a] > productCount[b]\<close>; a comparison with \<^verbatim>\<open>undefined\<close> is false.
\<close>

definition gt_count :: "rat jsobj \<Rightarrow> string \<Rightarrow> string \<Rightarrow> bool" where
  "gt_count productCount a b =
     (case (js_get productCount a, js_get productCount b) of
        (Some x, Some y) \<Rightarrow> x > y
      | _ \<Rightarrow> False)"

text \<open>Lines 164 to 166; \<^verbatim>\<open>reduce\<close> without an initial value starts from the first key.\<close>

definition best_of :: "rat jsobj \<Rightarrow> string" where
  "best_of productCount =
     (case Object_keys productCount of
        [] \<Rightarrow> ''Loading...''
      | k # ks \<Rightarrow> foldl (\<lambda>a b. if gt_count productCount a b then a else b) k ks)"

record sales_point =
  month :: string
  sales :: rat

record dashboard =
  totalOrders :: nat
  totalRevenue :: rat
  delivered :: nat
  pending :: nat
  bestSeller :: string
  salesChartData :: "sales_point list"
  statusChartData :: "(string \<times> nat \<times> string) list"

definition dashboardStats :: "month_fn \<Rightarrow> order list \<Rightarrow> dashboard" where
  "dashboardStats monthStr filtered =
     (case run_orders monthStr filtered of
        (totalRevenue', delivered', pending', monthlySales, productCount) \<Rightarrow>
          \<lparr> totalOrders = length filtered,
            totalRevenue = totalRevenue',
            delivered = delivered',
            pending = pending',
            bestSeller = best_of productCount,
            salesChartData =
              map (\<lambda>m. \<lparr> month = m, sales = or0 (js_get monthlySales m) \<rparr>)
                [''Jan'', ''Feb'', ''Mar''],
            statusChartData =
              [(''Delivered'', delivered', ''#5C4033''), (''Pending'', pending', ''#c4a484'')] \<rparr>)"

text \<open>The dashboard shown for a month selection: both memoised values in sequence.\<close>

definition computeDashboard :: "month_fn \<Rightarrow> string \<Rightarrow> order list \<Rightarrow> dashboard" where
  "computeDashboard monthStr selectedMonth adminOrders =
     dashboardStats monthStr (filteredOrders monthStr selectedMonth adminOrders)"

text \<open>The two dictionaries that the loop leaves behind.\<close>

definition monthlySales_of :: "month_fn \<Rightarrow> order list \<Rightarrow> rat jsobj" where
  "monthlySales_of monthStr filtered = fst (snd (snd (snd (run_orders monthStr filtered))))"

definition productCount_of :: "month_fn \<Rightarrow> order list \<Rightarrow> rat jsobj" where
  "productCount_of monthStr filtered = snd (snd (snd (snd (run_orders monthStr filtered))))"

section \<open>The server\<close>

subsection \<open>Access control\<close>

text \<open>The payload that \<^verbatim>\<open>/api/auth/login\<close> signs: \<^verbatim>\<open>{ id, role, name }\<close>.\<close>

record jwt_payload =
  uid :: nat
  role :: string
  display_name :: string

record request =
  authorization :: "string option"
  user :: "jwt_payload option"

text \<open>
  \<^verbatim>\<open>jwt.verify(token, JWT_SECRET, callback)\<close> belongs to a library: it is a parameter,
  giving the payload of a token whose signature is valid and whose expiry has not
  passed, and \<open>None\<close> where the callback receives an error.
\<close>

type_synonym verifier = "string \<Rightarrow> jwt_payload option"

text \<open>\<^verbatim>\<open>xs[i]\<close>, which is \<^verbatim>\<open>undefined\<close> out of range.\<close>

fun at_index :: "'a list \<Rightarrow> nat \<Rightarrow> 'a option" where
  "at_index [] i = None"
| "at_index (x # xs) 0 = Some x"
| "at_index (x # xs) (Suc i) = at_index xs i"

text \<open>
  \<^verbatim>\<open>authHeader && authHeader.split(' ')[1]\<close>: \<open>None\<close> is \<^verbatim>\<open>undefined\<close>; an empty
  header is itself the result.
\<close>

definition header_token :: "string option \<Rightarrow> string option" where
  "header_token authHeader =
     (case authHeader of
        None \<Rightarrow> None
      | Some h \<Rightarrow> if h = [] then Some [] else at_index (split_on (CHR '' '') h) 1)"

text \<open>
  A middleware either answers with a status code (\<open>Inl\<close>, \<^verbatim>\<open>res.sendStatus\<close>) or calls
  \<^verbatim>\<open>next()\<close> with the request (\<open>Inr\<close>).
\<close>

definition authenticateToken :: "verifier \<Rightarrow> request \<Rightarrow> nat + request" where
  "authenticateToken jwt_verify req =
     (case header_token (authorization req) of
        None \<Rightarrow> Inl 401
      | Some token \<Rightarrow>
          if token = [] then Inl 401
          else (case jwt_verify token of
                  None \<Rightarrow> Inl 403
                | Some u \<Rightarrow> Inr (req\<lparr>user := Some u\<rparr>)))"

text \<open>
  Reading \<^verbatim>\<open>req.user.role\<close> without a user is a \<^verbatim>\<open>TypeError\<close>, which Express answers
  with status 500.
\<close>

definition isAdmin :: "request \<Rightarrow> nat + request" where
  "isAdmin req =
     (case user req of
        None \<Rightarrow> Inl 500
      | Some u \<Rightarrow> if role u \<noteq> ''admin'' then Inl 403 else Inr req)"

datatype middleware = AuthenticateToken | IsAdmin

datatype route =
    PostSignup | PostLogin
  | GetProducts | PostProducts | DeleteProduct | PutProduct
  | PostOrders | GetAdminOrders | GetAdminStats
  | GetReviews | PostReviews
  | GetGallery | PostGallery | DeleteGallery
  | GetSettings | PostSettingsHero

text \<open>The guards that each \<^verbatim>\<open>app.get/post/put/delete\<close> call installs before its handler.\<close>

fun middlewares :: "route \<Rightarrow> middleware list" where
  "middlewares PostProducts = [AuthenticateToken, IsAdmin]"
| "middlewares DeleteProduct = [AuthenticateToken, IsAdmin]"
| "middlewares PutProduct = [AuthenticateToken, IsAdmin]"
| "middlewares GetAdminOrders = [AuthenticateToken, IsAdmin]"
| "middlewares GetAdminStats = [AuthenticateToken, IsAdmin]"
| "middlewares PostGallery = [AuthenticateToken, IsAdmin]"
| "middlewares DeleteGallery = [AuthenticateToken, IsAdmin]"
| "middlewares PostSettingsHero = [AuthenticateToken, IsAdmin]"
| "middlewares _ = []"

fun run_middleware :: "verifier \<Rightarrow> middleware \<Rightarrow> request \<Rightarrow> nat + request" where
  "run_middleware jwt_verify AuthenticateToken req = authenticateToken jwt_verify req"
| "run_middleware jwt_verify IsAdmin req = isAdmin req"

fun run_middlewares :: "verifier \<Rightarrow> middleware list \<Rightarrow> request \<Rightarrow> nat + request" where
  "run_middlewares jwt_verify [] req = Inr req"
| "run_middlewares jwt_verify (mw # mws) req =
     (case run_middleware jwt_verify mw req of
        Inl code \<Rightarrow> Inl code
      | Inr req' \<Rightarrow> run_middlewares jwt_verify mws req')"

text \<open>
  What a request to a route meets before its handler: a status code, or the request
  as the handler receives it.
\<close>

definition guard :: "verifier \<Rightarrow> route \<Rightarrow> request \<Rightarrow> nat + request" where
  "guard jwt_verify r req = run_middlewares jwt_verify (middlewares r) req"

text \<open>
  The privileged operations: listing orders, admin statistics, and the mutations of the
  catalog, the gallery and the settings.
\<close>

definition privileged :: "route \<Rightarrow> bool" where
  "privileged r =
     (r \<in> set [GetAdminOrders, GetAdminStats, PostProducts, DeleteProduct, PutProduct,
               PostGallery, DeleteGallery, PostSettingsHero])"

subsection \<open>The order ledger\<close>

text \<open>
  The table \<^verbatim>\<open>orders\<close> in insertion order, and the \<^verbatim>\<open>AUTOINCREMENT\<close> counter of its
  \<^verbatim>\<open>id\<close> column.
\<close>

record database =
  orders_rows :: "order list"
  orders_seq :: nat







subsection \<open>Admin statistics\<close>

text \<open>
  The callback of line 1824: \<^verbatim>\<open>salesMap[item.name] = (salesMap[item.name] || 0) + 1\<close>,
  on the typed view of an item (an object with a string \<^verbatim>\<open>name\<close>).
\<close>

definition count_line :: "rat jsobj \<Rightarrow> json \<Rightarrow> exn + rat jsobj" where
  "count_line salesMap item =
     (case item of
        JObj fs \<Rightarrow>
          (case property fs ''name'' of
             Some (JStr name) \<Rightarrow> Inr (js_set salesMap name (or0 (js_get salesMap name) + 1))
           | _ \<Rightarrow> Inl TypeError)
      | _ \<Rightarrow> Inl TypeError)"

text \<open>
  \<^verbatim>\<open>productSales.forEach(o => { const items = JSON.parse(o.items); items.forEach(...) })\<close>:
  nothing catches an exception, so the first one ends the loop and leaves the handler.
\<close>

fun sales_loop :: "order list \<Rightarrow> rat jsobj \<Rightarrow> exn + rat jsobj" where
  "sales_loop [] salesMap = Inr salesMap"
| "sales_loop (row # rows) salesMap =
     (case parse_forEach count_line (items row) salesMap of
        (salesMap', None) \<Rightarrow> sales_loop rows salesMap'
      | (salesMap', Some e) \<Rightarrow> Inl e)"

text \<open>\<^verbatim>\<open>Object.entries\<close>, in the order of \<^verbatim>\<open>Object.keys\<close>.\<close>

definition Object_entries :: "'v jsobj \<Rightarrow> (string \<times> 'v) list" where
  "Object_entries obj =
     sort_key (\<lambda>kv. int_of_digits (fst kv)) (filter (\<lambda>kv. is_array_index (fst kv)) obj)
     @ filter (\<lambda>kv. \<not> is_array_index (fst kv)) obj"

record stats =
  revenue :: rat
  orders :: nat
  chartData :: "(string \<times> rat) list"

text \<open>
  The handler of \<^verbatim>\<open>GET /api/admin/stats\<close>: the statistics, or the exception that leaves
  it.  \<^verbatim>\<open>SUM(total)\<close> of an empty table is \<^verbatim>\<open>NULL\<close>, which \<^verbatim>\<open>|| 0\<close> turns into 0.
\<close>

definition get_admin_stats :: "database \<Rightarrow> exn + stats" where
  "get_admin_stats db =
     (case sales_loop (orders_rows db) [] of
        Inl e \<Rightarrow> Inl e
      | Inr salesMap \<Rightarrow>
          Inr \<lparr> revenue = sum_list (map order_total (orders_rows db)),
                orders = length (orders_rows db),
                chartData = Object_entries salesMap \<rparr>)"

section \<open>Example data\<close>

text \<open>Three orders of January, as \<^verbatim>\<open>/api/admin/orders\<close> returns them (newest first).\<close>

definition january_orders :: "order list" where
  \<open>january_orders =
     [\<lparr> order_id = 3, user_id = Some 2,
         items = ''[{"name":"NIORA SIGNATURE SOAP","price":200,"quantity":1}]'',
         order_total = 200, status = ''pending'', address = ''Hubli'', contact = ''900'',
         created_at = ''2026-01-20 09:30:00'' \<rparr>,
      \<lparr> order_id = 2, user_id = Some 2,
         items = ''[{"name":"NIORA CHARCOAL SOAP","price":89,"quantity":1}]'',
         order_total = 89, status = ''delivered'', address = ''Hubli'', contact = ''900'',
         created_at = ''2026-01-12 18:05:00'' \<rparr>,
      \<lparr> order_id = 1, user_id = Some 2,
         items = ''[{"name":"NIORA RED WINE SOAP","price":79,"quantity":1}]'',
         order_total = 79, status = ''pending'', address = ''Hubli'', contact = ''900'',
         created_at = ''2026-01-03 11:00:00'' \<rparr>]\<close>

text \<open>A token verifier that knows one admin token and one customer token.\<close>

definition admin_payload :: jwt_payload where
  "admin_payload = \<lparr> uid = 1, role = ''admin'', display_name = ''NIORA Admin'' \<rparr>"

definition customer_payload :: jwt_payload where
  "customer_payload = \<lparr> uid = 2, role = ''customer'', display_name = ''Asha'' \<rparr>"

definition demo_verify :: verifier where
  "demo_verify token =
     (if token = ''admin-token'' then Some admin_payload
      else if token = ''customer-token'' then Some customer_payload
      else None)"

definition bare_request :: "string option \<Rightarrow> request" where
  "bare_request h = \<lparr> authorization = h, user = None \<rparr>"


text \<open>An order of April.\<close>

definition april_order :: order where
  \<open>april_order =
     \<lparr> order_id = 4, user_id = Some 2,
       items = ''[{"name":"NIORA SIGNATURE SOAP","price":200,"quantity":1}]'',
       order_total = 200, status = ''pending'', address = ''Hubli'', contact = ''900'',
       created_at = ''2026-04-02 08:15:00'' \<rparr>\<close>


text \<open>An order whose snapshot is not JSON, and a ledger that holds it.\<close>

definition broken_order :: order where
  "broken_order =
     \<lparr> order_id = 5, user_id = None, items = ''not json'',
       order_total = 50, status = ''Delivered'', address = ''Dharwad'', contact = ''901'',
       created_at = ''2026-01-25 14:00:00'' \<rparr>"

definition broken_ledger :: database where
  "broken_ledger = \<lparr> orders_rows = rev january_orders @ [broken_order], orders_seq = 5 \<rparr>"














section \<open>Totals and status counts of the dashboard\<close>

lemma fold_order_step_totalRevenue:
  "fst (fold (order_step m) xs (r, d, p, ms, pc)) = r + sum_list (map order_total xs)"
  by (induction xs arbitrary: r d p ms pc) (simp_all add: order_step_def)

lemma fold_order_step_delivered:
  "fst (snd (fold (order_step m) xs (r, d, p, ms, pc))) =
     d + length (filter (\<lambda>order. toLowerCase (status order) = ''delivered'') xs)"
  by (induction xs arbitrary: r d p ms pc) (simp_all add: order_step_def)

lemma fold_order_step_pending:
  "fst (snd (snd (fold (order_step m) xs (r, d, p, ms, pc)))) =
     p + length (filter (\<lambda>order. toLowerCase (status order) \<noteq> ''delivered'') xs)"
  by (induction xs arbitrary: r d p ms pc) (simp_all add: order_step_def)

lemma totalOrders_dashboardStats: "totalOrders (dashboardStats m xs) = length xs"
  by (simp add: dashboardStats_def split: prod.splits)

lemma totalRevenue_dashboardStats:
  "totalRevenue (dashboardStats m xs) = sum_list (map order_total xs)"
  using fold_order_step_totalRevenue [of m xs 0 0 0 "[(''Jan'', 0), (''Feb'', 0), (''Mar'', 0)]" "[]"]
  by (auto simp add: dashboardStats_def run_orders_def locals0_def split: prod.splits)

lemma delivered_dashboardStats:
  "delivered (dashboardStats m xs) =
     length (filter (\<lambda>order. toLowerCase (status order) = ''delivered'') xs)"
  using fold_order_step_delivered [of m xs 0 0 0 "[(''Jan'', 0), (''Feb'', 0), (''Mar'', 0)]" "[]"]
  by (auto simp add: dashboardStats_def run_orders_def locals0_def split: prod.splits)

lemma pending_dashboardStats:
  "pending (dashboardStats m xs) =
     length (filter (\<lambda>order. toLowerCase (status order) \<noteq> ''delivered'') xs)"
  using fold_order_step_pending [of m xs 0 0 0 "[(''Jan'', 0), (''Feb'', 0), (''Mar'', 0)]" "[]"]
  by (auto simp add: dashboardStats_def run_orders_def locals0_def split: prod.splits)




section \<open>Access control of the privileged routes\<close>

lemma guard_privileged:
  "privileged r \<Longrightarrow> guard v r req =
     (case authenticateToken v req of Inl code \<Rightarrow> Inl code | Inr req' \<Rightarrow> isAdmin req')"
  by (cases r) (auto simp: privileged_def guard_def split: sum.splits)

text \<open>
  Claim C7.  A request to a privileged route (listing orders, admin statistics, a
  mutation of the catalog, the gallery or the settings) is answered 401 when it carries
  no token: no \<^verbatim>\<open>authorization\<close> header, or a header whose second space-separated part
  is missing or empty.  It is answered 403 when the token does not verify (invalid or
  expired), and 403 when the token verifies but its role is not \<^verbatim>\<open>admin\<close>.  The
  request reaches the handler exactly when its token verifies with the role \<^verbatim>\<open>admin\<close>,
  and the handler then sees the payload as \<^verbatim>\<open>req.user\<close>.
\<close>

theorem privileged_access:
  assumes "privileged r"
  shows "(authorization req = None \<longrightarrow> guard v r req = Inl 401) \<and>
         (header_token (authorization req) = None \<or> header_token (authorization req) = Some []
            \<longrightarrow> guard v r req = Inl 401) \<and>
         (\<forall>token. header_token (authorization req) = Some token \<and> token \<noteq> [] \<and> v token = None
            \<longrightarrow> guard v r req = Inl 403) \<and>
         (\<forall>token u. header_token (authorization req) = Some token \<and> token \<noteq> [] \<and>
                    v token = Some u \<and> role u \<noteq> ''admin''
            \<longrightarrow> guard v r req = Inl 403) \<and>
         (\<forall>req'. guard v r req = Inr req' \<longleftrightarrow>
            (\<exists>token u. header_token (authorization req) = Some token \<and> token \<noteq> [] \<and>
                       v token = Some u \<and> role u = ''admin'' \<and> req' = req\<lparr>user := Some u\<rparr>))"
  unfolding guard_privileged [OF assms]
  by (auto simp: authenticateToken_def isAdmin_def header_token_def
           split: option.splits sum.splits if_splits)

lemma demo_tokens:
  "header_token (Some ''Bearer admin-token'') = Some ''admin-token''"
  "header_token (Some ''Bearer customer-token'') = Some ''customer-token''"
  "header_token (Some ''Bearer expired-token'') = Some ''expired-token''"
  "header_token (Some ''Bearer'') = None"
  by (simp_all add: header_token_def)

theorem privileged_access_witness:
  "guard demo_verify GetAdminOrders (bare_request None) = Inl 401 \<and>
   guard demo_verify GetAdminOrders (bare_request (Some ''Bearer expired-token'')) = Inl 403 \<and>
   guard demo_verify GetAdminOrders (bare_request (Some ''Bearer customer-token'')) = Inl 403 \<and>
   guard demo_verify GetAdminOrders (bare_request (Some ''Bearer admin-token''))
     = Inr ((bare_request (Some ''Bearer admin-token''))\<lparr>user := Some admin_payload\<rparr>)"
proof -
  have p: "privileged GetAdminOrders"
    by (simp add: privileged_def)
  have a: "guard demo_verify GetAdminOrders (bare_request None) = Inl 401"
    using privileged_access [OF p, of "bare_request None" demo_verify]
    by (simp add: bare_request_def)
  have b: "guard demo_verify GetAdminOrders (bare_request (Some ''Bearer expired-token'')) = Inl 403"
    using privileged_access [OF p, of "bare_request (Some ''Bearer expired-token'')" demo_verify]
    by (simp add: bare_request_def demo_tokens demo_verify_def)
  have c: "guard demo_verify GetAdminOrders (bare_request (Some ''Bearer customer-token'')) = Inl 403"
    using privileged_access [OF p, of "bare_request (Some ''Bearer customer-token'')" demo_verify]
    by (simp add: bare_request_def demo_tokens demo_verify_def customer_payload_def)
  have d: "guard demo_verify GetAdminOrders (bare_request (Some ''Bearer admin-token''))
     = Inr ((bare_request (Some ''Bearer admin-token''))\<lparr>user := Some admin_payload\<rparr>)"
    using privileged_access [OF p, of "bare_request (Some ''Bearer admin-token'')" demo_verify]
    by (simp add: bare_request_def demo_tokens demo_verify_def admin_payload_def)
  from a b c d show ?thesis by simp
qed

section \<open>Placing an order\<close>




section \<open>Month buckets and invariance under reordering\<close>


lemma order_step_apply:
  "order_step m x (r, d, p, ms, pc) =
     (r + order_total x,
      (if toLowerCase (status x) = ''delivered'' then d + 1 else d),
      (if toLowerCase (status x) = ''delivered'' then p else p + 1),
      (case js_get ms (m (created_at x)) of
         Some v \<Rightarrow> js_set ms (m (created_at x)) (v + order_total x)
       | None \<Rightarrow> js_set ms (m (created_at x)) (order_total x)),
      fst (parse_forEach count_quantity (items x) pc))"
  by (simp add: order_step_def)












text \<open>
  Claim C2.  The loop gives an order of April a bucket of its own in \<open>monthlySales\<close>,
  but the chart that the dashboard returns is built from the three names
  \<^verbatim>\<open>Jan\<close>, \<^verbatim>\<open>Feb\<close>, \<^verbatim>\<open>Mar\<close> only: with a single order of April worth 200,
  the bucket \<^verbatim>\<open>Apr\<close> holds 200 and the chart shows three months at 0.
\<close>

theorem april_missing_from_chart:
  "js_get (monthlySales_of month_short_en (filteredOrders month_short_en ''All'' [april_order])) ''Apr''
     = Some 200 \<and>
   salesChartData (computeDashboard month_short_en ''All'' [april_order]) =
     [\<lparr> month = ''Jan'', sales = 0 \<rparr>, \<lparr> month = ''Feb'', sales = 0 \<rparr>, \<lparr> month = ''Mar'', sales = 0 \<rparr>] \<and>
   totalRevenue (computeDashboard month_short_en ''All'' [april_order]) = 200"
  by code_simp

section \<open>Snapshots that do not parse\<close>

lemma fold_order_step_productCount:
  "snd (snd (snd (snd (fold (order_step m) xs (r, d, p, ms, pc))))) =
     fold (\<lambda>order pc. fst (parse_forEach count_quantity (items order) pc)) xs pc"
  by (induction xs arbitrary: r d p ms pc) (simp_all add: order_step_apply)

lemma productCount_of_fold:
  "productCount_of m xs =
     fold (\<lambda>order pc. fst (parse_forEach count_quantity (items order) pc)) xs []"
  by (simp add: productCount_of_def run_orders_def locals0_def fold_order_step_productCount)

lemma parse_forEach_SyntaxError:
  "JSON_parse s = Inl e \<Longrightarrow> parse_forEach cb s st = (st, Some e)"
  by (simp add: parse_forEach_def)

lemma JSON_parse_empty_array: "JSON_parse ''[]'' = Inr (JArr [])"
  by code_simp

lemma parse_forEach_empty_array: "parse_forEach cb ''[]'' st = (st, None)"
  by (simp add: parse_forEach_def JSON_parse_empty_array)

lemma order_step_unparseable:
  assumes "JSON_parse (items bad) = Inl e"
  shows "order_step m bad = order_step m (bad\<lparr>items := ''[]''\<rparr>)"
proof
  fix s :: locals
  obtain r d p ms pc where s: "s = (r, d, p, ms, pc)"
    by (cases s) auto
  show "order_step m bad s = order_step m (bad\<lparr>items := ''[]''\<rparr>) s"
    by (simp add: s order_step_apply parse_forEach_SyntaxError [OF assms] parse_forEach_empty_array
          split: option.splits)
qed

lemma run_orders_unparseable:
  assumes "JSON_parse (items bad) = Inl e"
  shows "run_orders m (xs @ bad # ys) = run_orders m (xs @ bad\<lparr>items := ''[]''\<rparr> # ys)"
  by (simp add: run_orders_def order_step_unparseable [OF assms])

lemma dashboardStats_unparseable:
  assumes "JSON_parse (items bad) = Inl e"
  shows "dashboardStats m (xs @ bad # ys) = dashboardStats m (xs @ bad\<lparr>items := ''[]''\<rparr> # ys)"
  by (simp add: dashboardStats_def run_orders_unparseable [OF assms])

lemma filteredOrders_append:
  "filteredOrders m sel (xs @ x # ys) =
     filteredOrders m sel xs @ filteredOrders m sel [x] @ filteredOrders m sel ys"
  by (simp add: filteredOrders_def)

lemma computeDashboard_unparseable:
  assumes "JSON_parse (items bad) = Inl e"
  shows "computeDashboard m sel (xs @ bad # ys) =
         computeDashboard m sel (xs @ bad\<lparr>items := ''[]''\<rparr> # ys)"
proof (cases "sel = ''All'' \<or> m (created_at bad) = sel")
  case True
  then have a: "filteredOrders m sel [bad] = [bad]"
     and b: "filteredOrders m sel [bad\<lparr>items := ''[]''\<rparr>] = [bad\<lparr>items := ''[]''\<rparr>]"
    by (auto simp: filteredOrders_def)
  show ?thesis
    unfolding computeDashboard_def filteredOrders_append [of m sel xs] a b
    using dashboardStats_unparseable [OF assms] by simp
next
  case False
  then have a: "filteredOrders m sel [bad] = []"
     and b: "filteredOrders m sel [bad\<lparr>items := ''[]''\<rparr>] = []"
    by (auto simp: filteredOrders_def)
  show ?thesis
    unfolding computeDashboard_def filteredOrders_append [of m sel xs] a b by simp
qed

lemma productCount_of_unparseable:
  assumes "JSON_parse (items bad) = Inl e"
  shows "productCount_of m (xs @ bad # ys) = productCount_of m (xs @ ys)"
  by (simp add: productCount_of_fold parse_forEach_SyntaxError [OF assms])

text \<open>
  Claim C3.  The dashboard is a total function: the \<^verbatim>\<open>SyntaxError\<close> of a snapshot
  that does not parse is caught inside the loop.  Such an order adds nothing to the
  product tally, so the best seller is that of the other orders, while its total and
  its status are counted: the whole dashboard is the one of the same list in which this
  order has the empty snapshot \<^verbatim>\<open>[]\<close>, and against the list without the order the
  revenue grows by its total and its status bucket by one.
\<close>

theorem unparseable_snapshot_skipped:
  assumes "JSON_parse (items bad) = Inl e"
  shows "computeDashboard m sel (xs @ bad # ys) =
           computeDashboard m sel (xs @ bad\<lparr>items := ''[]''\<rparr> # ys) \<and>
         productCount_of m (xs @ bad # ys) = productCount_of m (xs @ ys) \<and>
         bestSeller (dashboardStats m (xs @ bad # ys)) = bestSeller (dashboardStats m (xs @ ys)) \<and>
         totalOrders (dashboardStats m (xs @ bad # ys)) = totalOrders (dashboardStats m (xs @ ys)) + 1 \<and>
         totalRevenue (dashboardStats m (xs @ bad # ys)) =
           totalRevenue (dashboardStats m (xs @ ys)) + order_total bad \<and>
         delivered (dashboardStats m (xs @ bad # ys)) =
           delivered (dashboardStats m (xs @ ys)) +
             (if toLowerCase (status bad) = ''delivered'' then 1 else 0) \<and>
         pending (dashboardStats m (xs @ bad # ys)) =
           pending (dashboardStats m (xs @ ys)) +
             (if toLowerCase (status bad) = ''delivered'' then 0 else 1)"
proof -
  have "bestSeller (dashboardStats m zs) = best_of (productCount_of m zs)" for zs
    by (auto simp: dashboardStats_def productCount_of_def split: prod.splits)
  then have "bestSeller (dashboardStats m (xs @ bad # ys)) = bestSeller (dashboardStats m (xs @ ys))"
    by (simp add: productCount_of_unparseable [OF assms])
  then show ?thesis
    using computeDashboard_unparseable [OF assms] productCount_of_unparseable [OF assms]
    by (simp add: totalOrders_dashboardStats totalRevenue_dashboardStats
          delivered_dashboardStats pending_dashboardStats)
qed

lemma broken_order_unparseable: "JSON_parse (items broken_order) = Inl SyntaxError"
  by code_simp

theorem unparseable_snapshot_skipped_witness:
  "productCount_of month_short_en (january_orders @ [broken_order]) =
     productCount_of month_short_en january_orders \<and>
   totalRevenue (dashboardStats month_short_en (january_orders @ [broken_order])) = 418 \<and>
   delivered (dashboardStats month_short_en (january_orders @ [broken_order])) = 2 \<and>
   pending (dashboardStats month_short_en (january_orders @ [broken_order])) = 2"
proof -
  have r: "totalRevenue (dashboardStats month_short_en january_orders) = 368"
   and d: "delivered (dashboardStats month_short_en january_orders) = 1"
   and p: "pending (dashboardStats month_short_en january_orders) = 2"
    by code_simp+
  have l: "toLowerCase (status broken_order) = ''delivered''"
    by code_simp
  have t: "order_total broken_order = 50"
    by (simp add: broken_order_def)
  from unparseable_snapshot_skipped [OF broken_order_unparseable, of month_short_en _ january_orders "[]"]
  show ?thesis
    by (simp add: r d p l t)
qed

lemma sales_loop_unparseable:
  "row \<in> set rows \<Longrightarrow> JSON_parse (items row) = Inl e \<Longrightarrow> \<exists>e'. sales_loop rows salesMap = Inl e'"
proof (induction rows arbitrary: salesMap)
  case Nil
  then show ?case by simp
next
  case (Cons r rows)
  show ?case
  proof (cases "snd (parse_forEach count_line (items r) salesMap)")
    case (Some e')
    then show ?thesis
      by (cases "parse_forEach count_line (items r) salesMap") simp
  next
    case None
    then have "r \<noteq> row"
      using Cons.prems(2) by (auto simp: parse_forEach_SyntaxError)
    then have "row \<in> set rows"
      using Cons.prems(1) by simp
    from Cons.IH [OF this Cons.prems(2)] None show ?thesis
      by (cases "parse_forEach count_line (items r) salesMap") simp
  qed
qed

lemma fold_skip_unparseable:
  "fold (\<lambda>order pc. fst (parse_forEach cb (items order) pc))
        (filter (\<lambda>order. \<not> isl (JSON_parse (items order))) xs) pc =
   fold (\<lambda>order pc. fst (parse_forEach cb (items order) pc)) xs pc"
proof (induction xs arbitrary: pc)
  case Nil
  then show ?case by simp
next
  case (Cons x xs)
  show ?case
  proof (cases "JSON_parse (items x)")
    case (Inl e)
    then show ?thesis
      by (simp add: Cons.IH parse_forEach_SyntaxError)
  next
    case (Inr v)
    then show ?thesis
      by (simp add: Cons.IH)
  qed
qed

text \<open>
  Claim C10.  The handler of \<^verbatim>\<open>GET /api/admin/stats\<close> parses every snapshot outside
  any \<^verbatim>\<open>try\<close>: when some order of the ledger has a snapshot that is not valid JSON,
  the handler ends with an exception and produces no statistics at all.  On the same
  orders the tally of the dashboard is the tally of the orders that parse.
\<close>

theorem stats_fail_on_unparseable:
  assumes "row \<in> set (orders_rows db)" and "JSON_parse (items row) = Inl e"
  shows "(\<exists>e'. get_admin_stats db = Inl e') \<and>
         productCount_of m (orders_rows db) =
           productCount_of m (filter (\<lambda>order. \<not> isl (JSON_parse (items order))) (orders_rows db))"
proof -
  obtain e' where "sales_loop (orders_rows db) [] = Inl e'"
    using sales_loop_unparseable [OF assms] by blast
  then have "get_admin_stats db = Inl e'"
    by (simp add: get_admin_stats_def)
  then show ?thesis
    by (simp add: productCount_of_fold fold_skip_unparseable)
qed

theorem stats_fail_on_unparseable_witness:
  "get_admin_stats broken_ledger = Inl SyntaxError \<and>
   productCount_of month_short_en (orders_rows broken_ledger) =
     [(''NIORA RED WINE SOAP'', 1), (''NIORA CHARCOAL SOAP'', 1), (''NIORA SIGNATURE SOAP'', 1)]"
proof -
  have m: "broken_order \<in> set (orders_rows broken_ledger)"
    by (simp add: broken_ledger_def)
  have f: "filter (\<lambda>order. \<not> isl (JSON_parse (items order))) (orders_rows broken_ledger)
             = rev january_orders"
    by code_simp
  have c: "productCount_of month_short_en (rev january_orders) =
     [(''NIORA RED WINE SOAP'', 1), (''NIORA CHARCOAL SOAP'', 1), (''NIORA SIGNATURE SOAP'', 1)]"
    by code_simp
  have s: "get_admin_stats broken_ledger = Inl SyntaxError"
    by code_simp
  from stats_fail_on_unparseable [OF m broken_order_unparseable, of month_short_en] s show ?thesis
    by (simp add: f c)
qed

section \<open>The product tally and the best seller\<close>



















section \<open>Lines counted by the statistics, quantities counted by the dashboard\<close>


















end
